theory Spec2Isabelle
  imports Main "HOL-Library.AList"
begin

section \<open>JavaScript values as the parser sees them\<close>

text \<open>
  The parser works on whatever \<^verbatim>\<open>JSON.parse\<close> returns. A decoded document is a tree of
  null, booleans, numbers, strings, arrays and plain objects. Numbers are IEEE doubles in
  the program; here they are an abstract type \<open>'n\<close>, of which the code only uses the
  literals \<open>0\<close> and \<open>1\<close>, addition and the comparison \<open>>\<close>. An object is the list
  of its own properties (the first binding of a key counts). Strings are lists of code
  units; the model covers the code units up to U+00FF.
\<close>

datatype 'n json =
    JNull
  | JBool bool
  | JNum 'n
  | JStr string
  | JArr "'n json list"
  | JObj "(string \<times> 'n json) list"

text \<open>
  Thrown values. \<open>Error msg cause\<close> is \<^verbatim>\<open>new Error(msg, { cause })\<close>; \<open>SyntaxError\<close> is
  what \<^verbatim>\<open>JSON.parse\<close> throws, \<open>TypeError\<close> what a failed conversion to a primitive throws.
\<close>

datatype js_error =
    Error string "js_error option"
  | SyntaxError string
  | TypeError string

text \<open>
  The built-ins of the JavaScript runtime that the source calls and that are not part of
  the repository are parameters of the model: \<^verbatim>\<open>JSON.parse\<close> (\<open>Inl\<close> carries the message
  of the SyntaxError), the conversion of a string to a number, the printing of a number,
  and the number that stands for a length.
\<close>

record 'n js_runtime =
  JSON_parse :: "string \<Rightarrow> string + 'n json"
  StringToNumber :: "string \<Rightarrow> 'n"
  NumberToString :: "'n \<Rightarrow> string"
  NumberOfNat :: "nat \<Rightarrow> 'n"

subsection \<open>Sequencing of computations that may throw\<close>

definition bindE :: "'e + 'a \<Rightarrow> ('a \<Rightarrow> 'e + 'b) \<Rightarrow> 'e + 'b" where
  "bindE x f = (case x of Inl e \<Rightarrow> Inl e | Inr v \<Rightarrow> f v)"

fun sequenceE :: "('e + 'a) list \<Rightarrow> 'e + 'a list" where
  "sequenceE [] = Inr []"
| "sequenceE (x # xs) = bindE x (\<lambda>v. bindE (sequenceE xs) (\<lambda>vs. Inr (v # vs)))"

definition mapE :: "('a \<Rightarrow> 'e + 'b) \<Rightarrow> 'a list \<Rightarrow> 'e + 'b list" where
  "mapE f xs = sequenceE (map f xs)"

subsection \<open>Strings\<close>

definition isWhiteSpace :: "char \<Rightarrow> bool" where
  \<comment> \<open>WhiteSpace and LineTerminator of ECMAScript, among the code units up to U+00FF:
      TAB, LF, VT, FF, CR, SPACE, NBSP.\<close>
  "isWhiteSpace c = ((of_char c :: nat) \<in> {9, 10, 11, 12, 13, 32, 160})"

definition trim :: "string \<Rightarrow> string" where
  "trim s = rev (dropWhile isWhiteSpace (rev (dropWhile isWhiteSpace s)))"

definition toLowerChar :: "char \<Rightarrow> char" where
  \<comment> \<open>A-Z and the capital letters of Latin-1 (U+00C0 to U+00DE without U+00D7).\<close>
  "toLowerChar c =
     (let n = (of_char c :: nat)
      in if (65 \<le> n \<and> n \<le> 90) \<or> (192 \<le> n \<and> n \<le> 222 \<and> n \<noteq> 215)
         then char_of (n + 32) else c)"

definition toLowerCase :: "string \<Rightarrow> string" where
  "toLowerCase s = map toLowerChar s"

fun join :: "string \<Rightarrow> string list \<Rightarrow> string" where
  "join sep [] = []"
| "join sep [s] = s"
| "join sep (s # t # ts) = s @ sep @ join sep (t # ts)"

subsection \<open>Conversions\<close>

definition cannotConvert :: js_error where
  "cannotConvert = TypeError ''Cannot convert object to primitive value''"

text \<open>
  \<^verbatim>\<open>String(v)\<close>. An array prints its elements joined by commas, null elements as the
  empty string. A plain object goes through OrdinaryToPrimitive: its \<^verbatim>\<open>toString\<close> is looked
  up first, and an own property of that name (which in a decoded document is never a
  function) hides \<^verbatim>\<open>Object.prototype.toString\<close>; \<^verbatim>\<open>valueOf\<close> then yields no primitive
  either, and the conversion throws a TypeError. Otherwise the result is
  \<^verbatim>\<open>[object Object]\<close>.
\<close>

fun js_String :: "'n js_runtime \<Rightarrow> 'n json \<Rightarrow> js_error + string" where
  "js_String rt JNull = Inr ''null''"
| "js_String rt (JBool b) = Inr (if b then ''true'' else ''false'')"
| "js_String rt (JNum n) = Inr (NumberToString rt n)"
| "js_String rt (JStr s) = Inr s"
| "js_String rt (JArr xs) =
     bindE (sequenceE (map (\<lambda>x. if x = JNull then Inr [] else js_String rt x) xs))
       (\<lambda>ss. Inr (join '','' ss))"
| "js_String rt (JObj kvs) =
     (if ''toString'' \<in> set (map fst kvs) then Inl cannotConvert
      else Inr ''[object Object]'')"

text \<open>
  \<^verbatim>\<open>Number(v)\<close>. Arrays and objects are converted to a primitive first (\<^verbatim>\<open>valueOf\<close>
  returns the object itself, so the string conversion above decides), and the string is
  then read as a number.
\<close>

fun js_Number :: "'n::{zero,one} js_runtime \<Rightarrow> 'n json \<Rightarrow> js_error + 'n" where
  "js_Number rt JNull = Inr 0"
| "js_Number rt (JBool b) = Inr (if b then 1 else 0)"
| "js_Number rt (JNum n) = Inr n"
| "js_Number rt (JStr s) = Inr (StringToNumber rt s)"
| "js_Number rt (JArr xs) = bindE (js_String rt (JArr xs)) (\<lambda>s. Inr (StringToNumber rt s))"
| "js_Number rt (JObj kvs) = bindE (js_String rt (JObj kvs)) (\<lambda>s. Inr (StringToNumber rt s))"

subsection \<open>Property access\<close>

text \<open>
  \<open>getProp v k\<close> is \<^verbatim>\<open>v.k\<close> for a value \<open>v\<close> that is neither null nor undefined; \<open>None\<close>
  is \<^verbatim>\<open>undefined\<close>. The parser reads fixed property names only, none of which is
  defined on a prototype, so an object answers with its own properties, and an array or
  a string answers to \<^verbatim>\<open>length\<close> alone.
\<close>

fun getProp :: "'n js_runtime \<Rightarrow> 'n json \<Rightarrow> string \<Rightarrow> 'n json option" where
  "getProp rt (JObj kvs) k = map_of kvs k"
| "getProp rt (JArr xs) k =
     (if k = ''length'' then Some (JNum (NumberOfNat rt (length xs))) else None)"
| "getProp rt (JStr s) k =
     (if k = ''length'' then Some (JNum (NumberOfNat rt (length s))) else None)"
| "getProp rt _ k = None"

fun optChain :: "'n js_runtime \<Rightarrow> 'n json option \<Rightarrow> string \<Rightarrow> 'n json option" where
  \<comment> \<open>\<^verbatim>\<open>v?.k\<close>\<close>
  "optChain rt None k = None"
| "optChain rt (Some JNull) k = None"
| "optChain rt (Some v) k = getProp rt v k"

fun nullish :: "'n json option \<Rightarrow> 'n json \<Rightarrow> 'n json" where
  \<comment> \<open>\<^verbatim>\<open>v ?? d\<close>\<close>
  "nullish None d = d"
| "nullish (Some JNull) d = d"
| "nullish (Some v) d = v"

fun isObject :: "'n json \<Rightarrow> bool" where
  \<comment> \<open>\<^verbatim>\<open>v !== null && v !== undefined && typeof v === 'object'\<close>\<close>
  "isObject (JArr xs) = True"
| "isObject (JObj kvs) = True"
| "isObject _ = False"

fun js_in :: "string \<Rightarrow> 'n json \<Rightarrow> bool" where
  \<comment> \<open>\<^verbatim>\<open>k in v\<close> for an object or array \<open>v\<close>, for the names the parser asks about\<close>
  "js_in k (JObj kvs) = (k \<in> set (map fst kvs))"
| "js_in k (JArr xs) = (k = ''length'')"
| "js_in k _ = False"

section \<open>The report model (types/oxlint.ts)\<close>

record 'n OxlintSpan =
  offset :: 'n
  length' :: 'n
  line :: 'n
  column :: 'n

record 'n OxlintLabel =
  label :: "string option"
  span :: "'n OxlintSpan"

record 'n OxlintRelated =
  message' :: "string option"
  labels' :: "'n OxlintLabel list option"

text \<open>\<open>severity\<close> has the type \<^verbatim>\<open>'error' | 'warning'\<close>, which is a string at run time.\<close>

record 'n OxlintDiagnostic =
  message :: string
  code :: string
  severity :: string
  causes :: "string list"
  url :: "string option"
  "help" :: "string option"
  filename :: string
  labels :: "'n OxlintLabel list"
  related :: "'n OxlintRelated list"

record 'n OxlintReport =
  diagnostics :: "'n OxlintDiagnostic list"
  number_of_files :: 'n
  number_of_rules :: "'n option"
  threads_count :: 'n
  start_time :: 'n

section \<open>The parser (parser.ts)\<close>

definition rawSpanField :: "'n js_runtime \<Rightarrow> 'n json \<Rightarrow> string \<Rightarrow> 'n json option" where
  \<comment> \<open>\<^verbatim>\<open>l.span?.k\<close>\<close>
  "rawSpanField rt l k = optChain rt (getProp rt l ''span'') k"

definition spanField :: "'n::{zero,one} js_runtime \<Rightarrow> 'n json \<Rightarrow> string \<Rightarrow> 'n \<Rightarrow> js_error + 'n" where
  \<comment> \<open>\<^verbatim>\<open>Number(l.span?.k ?? d)\<close>\<close>
  "spanField rt l k d = js_Number rt (nullish (rawSpanField rt l k) (JNum d))"

definition parseLabel :: "'n::{zero,one} js_runtime \<Rightarrow> 'n json \<Rightarrow> js_error + 'n OxlintLabel" where
  "parseLabel rt l =
     bindE (spanField rt l ''offset'' 0) (\<lambda>off.
     bindE (spanField rt l ''length'' 0) (\<lambda>len.
     bindE (spanField rt l ''line'' 1) (\<lambda>lin.
     bindE (spanField rt l ''column'' 1) (\<lambda>col.
       Inr \<lparr> label = (case getProp rt l ''label'' of Some (JStr s) \<Rightarrow> Some s | _ \<Rightarrow> None),
             span = \<lparr> offset = off, length' = len, line = lin, column = col \<rparr> \<rparr>))))"

fun parseLabels :: "'n::{zero,one} js_runtime \<Rightarrow> 'n json option \<Rightarrow> js_error + 'n OxlintLabel list option" where
  "parseLabels rt (Some (JArr raw)) =
     bindE (mapE (parseLabel rt) (filter isObject raw)) (\<lambda>ls. Inr (Some ls))"
| "parseLabels rt _ = Inr None"

fun isOxlintReport :: "'n js_runtime \<Rightarrow> 'n json \<Rightarrow> bool" where
  \<comment> \<open>null is falsy; booleans, numbers and strings are not of type object\<close>
  "isOxlintReport rt (JObj kvs) =
     (case getProp rt (JObj kvs) ''diagnostics'' of Some (JArr ds) \<Rightarrow> True | _ \<Rightarrow> False)"
| "isOxlintReport rt (JArr xs) =
     (case getProp rt (JArr xs) ''diagnostics'' of Some (JArr ds) \<Rightarrow> True | _ \<Rightarrow> False)"
| "isOxlintReport rt _ = False"

definition isOxlintDiagnostic :: "'n json \<Rightarrow> bool" where
  "isOxlintDiagnostic v =
     (isObject v \<and> js_in ''message'' v \<and> js_in ''code'' v \<and> js_in ''severity'' v
      \<and> js_in ''filename'' v)"

definition normalizeOxlintSeverity :: "string \<Rightarrow> string" where
  "normalizeOxlintSeverity sev =
     (let s = toLowerCase sev
      in if s = ''error'' then ''error''
         else if s = ''warning'' \<or> s = ''warn'' then ''warning''
         else ''warning'')"

definition optString :: "'n js_runtime \<Rightarrow> 'n json option \<Rightarrow> js_error + string option" where
  \<comment> \<open>\<^verbatim>\<open>v === undefined ? undefined : String(v)\<close>\<close>
  "optString rt v = (case v of None \<Rightarrow> Inr None | Some x \<Rightarrow> bindE (js_String rt x) (\<lambda>s. Inr (Some s)))"

definition parseRelated :: "'n::{zero,one} js_runtime \<Rightarrow> 'n json \<Rightarrow> js_error + 'n OxlintRelated" where
  \<comment> \<open>the function mapped over the kept entries of \<^verbatim>\<open>d.related\<close>\<close>
  "parseRelated rt r =
     bindE (optString rt (getProp rt r ''message'')) (\<lambda>m.
     bindE (parseLabels rt (getProp rt r ''labels'')) (\<lambda>ls.
       Inr \<lparr> message' = m, labels' = ls \<rparr>))"

definition parseDiagnostic :: "'n::{zero,one} js_runtime \<Rightarrow> 'n json \<Rightarrow> js_error + 'n OxlintDiagnostic" where
  \<comment> \<open>the function mapped over the admitted entries of \<^verbatim>\<open>parsed.diagnostics\<close>\<close>
  "parseDiagnostic rt d =
     bindE (js_String rt (nullish (getProp rt d ''message'') (JStr ''''))) (\<lambda>msg.
     bindE (js_String rt (nullish (getProp rt d ''code'') (JStr ''''))) (\<lambda>cod.
     bindE (js_String rt (nullish (getProp rt d ''severity'') (JStr ''warning''))) (\<lambda>sev.
     bindE (case getProp rt d ''causes'' of
              Some (JArr cs) \<Rightarrow> mapE (js_String rt) cs
            | _ \<Rightarrow> Inr []) (\<lambda>cas.
     bindE (optString rt (getProp rt d ''url'')) (\<lambda>u.
     bindE (optString rt (getProp rt d ''help'')) (\<lambda>h.
     bindE (js_String rt (nullish (getProp rt d ''filename'') (JStr ''''))) (\<lambda>fil.
     bindE (parseLabels rt (getProp rt d ''labels'')) (\<lambda>ls.
     bindE (case getProp rt d ''related'' of
              Some (JArr rs) \<Rightarrow> mapE (parseRelated rt) (filter isObject rs)
            | _ \<Rightarrow> Inr []) (\<lambda>rel.
       Inr \<lparr> message = msg, code = cod, severity = normalizeOxlintSeverity sev,
             causes = cas, url = u, help = h, filename = fil,
             labels = (case ls of None \<Rightarrow> [] | Some xs \<Rightarrow> xs), related = rel \<rparr>)))))))))"

fun errorToString :: "js_error \<Rightarrow> string" where
  \<comment> \<open>\<^verbatim>\<open>String(err)\<close>: the name of the error, a colon and its message\<close>
  "errorToString (Error m c) = ''Error: '' @ m"
| "errorToString (SyntaxError m) = ''SyntaxError: '' @ m"
| "errorToString (TypeError m) = ''TypeError: '' @ m"

definition parseOxlintJson :: "'n::{zero,one} js_runtime \<Rightarrow> string \<Rightarrow> js_error + 'n OxlintReport" where
  \<open>parseOxlintJson rt jsonContent =
     (if trim jsonContent = '''' then Inl (Error ''Input JSON content is empty'' None)
      else case JSON_parse rt jsonContent of
        Inl m \<Rightarrow>
          Inl (Error (''Failed to parse JSON: '' @ errorToString (SyntaxError m))
                 (Some (SyntaxError m)))
      | Inr parsed \<Rightarrow>
          if \<not> isOxlintReport rt parsed
          then Inl (Error ''Invalid oxlint JSON: missing "diagnostics" array'' None)
          else
            bindE (mapE (parseDiagnostic rt)
                     (filter isOxlintDiagnostic
                        (case getProp rt parsed ''diagnostics'' of Some (JArr ds) \<Rightarrow> ds | _ \<Rightarrow> []))) (\<lambda>ds.
            bindE (js_Number rt (nullish (getProp rt parsed ''number_of_files'') (JNum 0))) (\<lambda>nf.
            bindE (case getProp rt parsed ''number_of_rules'' of
                     None \<Rightarrow> Inr None
                   | Some JNull \<Rightarrow> Inr None
                   | Some v \<Rightarrow> bindE (js_Number rt v) (\<lambda>n. Inr (Some n))) (\<lambda>nr.
            bindE (js_Number rt (nullish (getProp rt parsed ''threads_count'') (JNum 1))) (\<lambda>tc.
            bindE (js_Number rt (nullish (getProp rt parsed ''start_time'') (JNum 0))) (\<lambda>st.
              Inr \<lparr> diagnostics = ds, number_of_files = nf, number_of_rules = nr,
                    threads_count = tc, start_time = st \<rparr>))))))\<close>

text \<open>The three kinds of failure the parser raises itself.\<close>

definition EmptyInput :: js_error where
  "EmptyInput = Error ''Input JSON content is empty'' None"

definition MalformedJson :: "string \<Rightarrow> js_error" where
  "MalformedJson m =
     Error (''Failed to parse JSON: SyntaxError: '' @ m) (Some (SyntaxError m))"

definition InvalidShape :: js_error where
  \<open>InvalidShape = Error ''Invalid oxlint JSON: missing "diagnostics" array'' None\<close>

section \<open>The SARIF log (the part of the \<^verbatim>\<open>sarif\<close> types the converter fills in)\<close>

record 'n Region =
  startLine :: 'n
  startColumn :: "'n option"
  endColumn :: "'n option"

record ArtifactLocation =
  uri :: string

record 'n PhysicalLocation =
  artifactLocation :: "ArtifactLocation option"
  region :: "'n Region option"

text \<open>\<open>locationMessage\<close> is \<^verbatim>\<open>message.text\<close> of a location, \<open>messageText\<close> that of a result.\<close>

record 'n Location =
  locationId :: "nat option"
  physicalLocation :: "'n PhysicalLocation"
  locationMessage :: "string option"

record 'n Result =
  level :: "string option"
  messageText :: string
  ruleId :: string
  ruleIndex :: "nat option"
  locations :: "'n Location list"
  relatedLocations :: "'n Location list option"

text \<open>\<open>shortDescription\<close> and \<open>ruleHelp\<close> are the \<^verbatim>\<open>text\<close> of the respective objects.\<close>

record ReportingDescriptor =
  id' :: string
  shortDescription :: string
  helpUri :: "string option"
  ruleHelp :: "string option"

record ToolComponent =
  name :: string
  version :: "string option"
  informationUri :: "string option"
  rules :: "ReportingDescriptor list"

text \<open>\<open>driver\<close> is \<^verbatim>\<open>tool.driver\<close> of a run.\<close>

record 'n Run =
  driver :: ToolComponent
  columnKind :: "string option"
  results :: "'n Result list"

record 'n Log =
  schema :: string
  logVersion :: string
  runs :: "'n Run list"

section \<open>The builders of node-sarif-builder\<close>

text \<open>
  The converter assembles the log through the builder classes \<^verbatim>\<open>SarifBuilder\<close>,
  \<^verbatim>\<open>SarifRunBuilder\<close>, \<^verbatim>\<open>SarifRuleBuilder\<close> and \<^verbatim>\<open>SarifResultBuilder\<close> of the package
  node-sarif-builder, whose code is not part of the repository. They are modelled from
  what the specification says the converter does with them: a setter stores its argument
  in the field it names; \<^verbatim>\<open>addRule\<close>, \<^verbatim>\<open>addResult\<close> and \<^verbatim>\<open>addRun\<close> append; the log
  has version 2.1.0; and building the output gives every result, as its \<^verbatim>\<open>ruleIndex\<close>,
  the zero-based position of its rule in the rules of the run.
\<close>

definition SarifBuilder_new :: "string \<Rightarrow> 'n Log" where
  \<comment> \<open>Modelled from the spec: the constructor of \<^verbatim>\<open>SarifBuilder\<close> is missing; a log with the given schema, version 2.1.0 and no run yet\<close>
  "SarifBuilder_new s = \<lparr> schema = s, logVersion = ''2.1.0'', runs = [] \<rparr>"

definition SarifRunBuilder_new :: "'n Run" where
  \<comment> \<open>Modelled from the spec: the constructor of \<^verbatim>\<open>SarifRunBuilder\<close> is missing; a run with no rule and no result yet\<close>
  "SarifRunBuilder_new =
     \<lparr> driver = \<lparr> name = '''', version = None, informationUri = None, rules = [] \<rparr>,
       columnKind = None, results = [] \<rparr>"

definition setToolDriverName :: "string \<Rightarrow> 'n Run \<Rightarrow> 'n Run" where
  \<comment> \<open>Modelled from the spec: the setter is missing; it stores the name of the driver\<close>
  "setToolDriverName n run = run\<lparr> driver := (driver run)\<lparr> name := n \<rparr> \<rparr>"

definition setToolDriverVersion :: "string \<Rightarrow> 'n Run \<Rightarrow> 'n Run" where
  \<comment> \<open>Modelled from the spec: the setter is missing; it stores the version of the driver\<close>
  "setToolDriverVersion v run = run\<lparr> driver := (driver run)\<lparr> version := Some v \<rparr> \<rparr>"

definition setToolDriverUri :: "string \<Rightarrow> 'n Run \<Rightarrow> 'n Run" where
  \<comment> \<open>Modelled from the spec: the setter is missing; it stores the \<^verbatim>\<open>informationUri\<close> of the driver\<close>
  "setToolDriverUri u run = run\<lparr> driver := (driver run)\<lparr> informationUri := Some u \<rparr> \<rparr>"

definition addRule :: "ReportingDescriptor \<Rightarrow> 'n Run \<Rightarrow> 'n Run" where
  \<comment> \<open>Modelled from the spec: \<^verbatim>\<open>addRule\<close> is missing; it appends the rule to the rules of the driver\<close>
  "addRule r run = run\<lparr> driver := (driver run)\<lparr> rules := rules (driver run) @ [r] \<rparr> \<rparr>"

definition addResult :: "'n Result \<Rightarrow> 'n Run \<Rightarrow> 'n Run" where
  \<comment> \<open>Modelled from the spec: \<^verbatim>\<open>addResult\<close> is missing; it appends the result to the results of the run\<close>
  "addResult r run = run\<lparr> results := results run @ [r] \<rparr>"

definition addRun :: "'n Run \<Rightarrow> 'n Log \<Rightarrow> 'n Log" where
  \<comment> \<open>Modelled from the spec: \<^verbatim>\<open>addRun\<close> is missing; it appends the run to the runs of the log\<close>
  "addRun run log = log\<lparr> runs := runs log @ [run] \<rparr>"

definition initSimple :: "string \<Rightarrow> string \<Rightarrow> string option \<Rightarrow> ReportingDescriptor" where
  \<comment> \<open>Modelled from the spec: \<^verbatim>\<open>SarifRuleBuilder.initSimple\<close> is missing; a rule with the given id and short description, and the \<^verbatim>\<open>helpUri\<close> if one is passed\<close>
  "initSimple rid shortDescriptionText uriOpt =
     \<lparr> id' = rid, shortDescription = shortDescriptionText, helpUri = uriOpt, ruleHelp = None \<rparr>"

definition SarifResultBuilder_new :: "'n Result" where
  \<comment> \<open>Modelled from the spec: the constructor of \<^verbatim>\<open>SarifResultBuilder\<close> is missing; a result on which nothing has been set yet\<close>
  "SarifResultBuilder_new =
     \<lparr> level = None, messageText = '''', ruleId = '''', ruleIndex = None, locations = [],
       relatedLocations = None \<rparr>"

definition setLevel :: "string option \<Rightarrow> 'n Result \<Rightarrow> 'n Result" where
  \<comment> \<open>Modelled from the spec: the setter is missing; it stores the level\<close>
  "setLevel l r = r\<lparr> level := l \<rparr>"

definition setMessageText :: "string \<Rightarrow> 'n Result \<Rightarrow> 'n Result" where
  \<comment> \<open>Modelled from the spec: the setter is missing; it stores the text of the message\<close>
  "setMessageText t r = r\<lparr> messageText := t \<rparr>"

definition setRuleId :: "string \<Rightarrow> 'n Result \<Rightarrow> 'n Result" where
  \<comment> \<open>Modelled from the spec: the setter is missing; it stores the rule identifier\<close>
  "setRuleId i r = r\<lparr> ruleId := i \<rparr>"

definition firstLocation :: "'n Result \<Rightarrow> 'n Location" where
  \<comment> \<open>Modelled from the spec: the location the two setters below write to is missing;
      \<^verbatim>\<open>locations[0]\<close>, created empty when the result has no location yet\<close>
  "firstLocation r =
     (case locations r of
        [] \<Rightarrow> \<lparr> locationId = None,
                physicalLocation = \<lparr> artifactLocation = None, region = None \<rparr>,
                locationMessage = None \<rparr>
      | l # ls \<Rightarrow> l)"

definition setLocationArtifactUri :: "ArtifactLocation \<Rightarrow> 'n Result \<Rightarrow> 'n Result" where
  \<comment> \<open>Modelled from the spec: the setter is missing; it stores the artifact location of the primary location\<close>
  "setLocationArtifactUri a r =
     r\<lparr> locations :=
          (firstLocation r)\<lparr> physicalLocation :=
             (physicalLocation (firstLocation r))\<lparr> artifactLocation := Some a \<rparr> \<rparr>
          # tl (locations r) \<rparr>"

definition setLocationRegion :: "'n Region \<Rightarrow> 'n Result \<Rightarrow> 'n Result" where
  \<comment> \<open>Modelled from the spec: the setter is missing; it stores the region of the primary location\<close>
  "setLocationRegion g r =
     r\<lparr> locations :=
          (firstLocation r)\<lparr> physicalLocation :=
             (physicalLocation (firstLocation r))\<lparr> region := Some g \<rparr> \<rparr>
          # tl (locations r) \<rparr>"

definition rulesIndexes :: "ReportingDescriptor list \<Rightarrow> string \<Rightarrow> nat option" where
  \<comment> \<open>Modelled from the spec: the index that \<^verbatim>\<open>buildSarifOutput\<close> computes is missing; the zero-based position, in the rules of the driver, of the rule with a given id\<close>
  "rulesIndexes rs = map_of (zip (map id' rs) [0..<length rs])"

definition completeRunFields :: "'n Run \<Rightarrow> 'n Run" where
  \<comment> \<open>Modelled from the spec: the completion of a run by \<^verbatim>\<open>buildSarifOutput\<close> is missing; every result gets the position of its rule as \<^verbatim>\<open>ruleIndex\<close>\<close>
  "completeRunFields run =
     run\<lparr> results :=
       map (\<lambda>r. r\<lparr> ruleIndex := rulesIndexes (rules (driver run)) (ruleId r) \<rparr>) (results run) \<rparr>"

definition buildSarifOutput :: "'n Log \<Rightarrow> 'n Log" where
  \<comment> \<open>Modelled from the spec: \<^verbatim>\<open>buildSarifOutput\<close> is missing; it completes every run and returns the log\<close>
  "buildSarifOutput log = log\<lparr> runs := map completeRunFields (runs log) \<rparr>"

section \<open>The converter (converter.ts)\<close>

definition SARIF_SCHEMA :: string where
  "SARIF_SCHEMA =
     ''https://docs.oasis-open.org/sarif/sarif/v2.1.0/cos02/schemas/sarif-schema-2.1.0.json''"

definition mapSeverityToLevel :: "string \<Rightarrow> string option" where
  \<comment> \<open>a switch without a default: any other string falls through and gives undefined\<close>
  "mapSeverityToLevel sev =
     (if sev = ''error'' then Some ''error''
      else if sev = ''warning'' then Some ''warning''
      else None)"

definition isAsciiLetter :: "char \<Rightarrow> bool" where
  "isAsciiLetter c =
     (let n = (of_char c :: nat) in (65 \<le> n \<and> n \<le> 90) \<or> (97 \<le> n \<and> n \<le> 122))"

definition pathToUri :: "string \<Rightarrow> string" where
  "pathToUri filePath =
     (let normalized = map (\<lambda>c. if c = CHR 0x5C then CHR ''/'' else c) filePath
      in case normalized of
           c1 # c2 # c3 # cs \<Rightarrow>
             if isAsciiLetter c1 \<and> c2 = CHR '':'' \<and> c3 = CHR ''/'' then ''file:///'' @ normalized
             else if c1 = CHR ''/'' then ''file://'' @ normalized
             else normalized
         | c1 # cs \<Rightarrow> if c1 = CHR ''/'' then ''file://'' @ normalized else normalized
         | [] \<Rightarrow> normalized)"

definition buildRegion :: "'n::{zero,ord,plus} OxlintSpan \<Rightarrow> 'n Region" where
  "buildRegion sp =
     (let region = \<lparr> startLine = line sp, startColumn = None, endColumn = None \<rparr>;
          region = (if column sp > 0 then region\<lparr> startColumn := Some (column sp) \<rparr> else region);
          region = (if length' sp > 0 then region\<lparr> endColumn := Some (column sp + length' sp) \<rparr>
                    else region)
      in region)"

fun truthy :: "string option \<Rightarrow> bool" where
  \<comment> \<open>an optional string in a condition: undefined and the empty string are falsy\<close>
  "truthy None = False"
| "truthy (Some s) = (s \<noteq> [])"

definition buildRelatedLocation :: "'n::{zero,ord,plus} OxlintLabel \<Rightarrow> string \<Rightarrow> nat \<Rightarrow> 'n Location" where
  "buildRelatedLocation lbl fname i =
     (let loc = \<lparr> locationId = Some i,
                  physicalLocation =
                    \<lparr> artifactLocation = Some \<lparr> uri = pathToUri fname \<rparr>,
                      region = Some (buildRegion (span lbl)) \<rparr>,
                  locationMessage = None \<rparr>
      in if truthy (label lbl) then loc\<lparr> locationMessage := label lbl \<rparr> else loc)"

text \<open>
  The body of the loop over \<^verbatim>\<open>report.diagnostics\<close>. The state is \<^verbatim>\<open>ruleIndexMap\<close>, a
  \<^verbatim>\<open>Map\<close> kept as the list of its entries in insertion order, and the run under
  construction.
\<close>

definition convertStep ::
  "'n::{zero,ord,plus} OxlintDiagnostic \<Rightarrow> (string \<times> nat) list \<times> 'n Run \<Rightarrow> (string \<times> nat) list \<times> 'n Run" where
  "convertStep diagnostic st =
     (let ruleIndexMap = fst st; run = snd st;
          rid = (if code diagnostic \<noteq> [] then code diagnostic else ''UnknownRule'');
          lev = mapSeverityToLevel (severity diagnostic);
          fileUri = pathToUri (filename diagnostic);
          st' = (if map_of ruleIndexMap rid = None
                 then let rule = initSimple rid rid
                                   (if truthy (url diagnostic) then url diagnostic else None);
                          rule = (if truthy (help diagnostic)
                                  then rule\<lparr> ruleHelp := help diagnostic \<rparr> else rule)
                      in (AList.update rid (length ruleIndexMap) ruleIndexMap, addRule rule run)
                 else (ruleIndexMap, run));
          msg = message diagnostic;
          msg = (if truthy (help diagnostic) then msg @ [CHR 0x0A] @ the (help diagnostic) else msg);
          res = SarifResultBuilder_new;
          res = setLevel lev res;
          res = setMessageText msg res;
          res = setRuleId rid res;
          res = setLocationArtifactUri \<lparr> uri = fileUri \<rparr> res;
          res = (case labels diagnostic of
                   [] \<Rightarrow> res
                 | l # ls \<Rightarrow> setLocationRegion (buildRegion (span l)) res);
          res = (if length (labels diagnostic) > 1
                 then res\<lparr> relatedLocations :=
                        Some (map (\<lambda>(idx, lbl). buildRelatedLocation lbl (filename diagnostic) (idx + 1))
                                (enumerate 0 (drop 1 (labels diagnostic)))) \<rparr>
                 else res)
      in (fst st', addResult res (snd st')))"

definition initialRun :: "string option \<Rightarrow> 'n Run" where
  \<comment> \<open>the run as it stands before the loop\<close>
  "initialRun toolVersion =
     (let run = setToolDriverName ''oxlint'' SarifRunBuilder_new;
          run = (if truthy toolVersion then setToolDriverVersion (the toolVersion) run else run);
          run = setToolDriverUri ''https://oxc.rs/docs/guide/usage/linter'' run
      in run\<lparr> columnKind := Some ''utf16CodeUnits'' \<rparr>)"

definition convertLoop ::
  "'n::{zero,ord,plus} OxlintDiagnostic list \<Rightarrow> (string \<times> nat) list \<times> 'n Run \<Rightarrow> (string \<times> nat) list \<times> 'n Run" where
  "convertLoop ds st = fold convertStep ds st"

definition convertToSarif :: "'n::{zero,ord,plus} OxlintReport \<Rightarrow> string option \<Rightarrow> 'n Log" where
  "convertToSarif report toolVersion =
     buildSarifOutput
       (addRun (snd (convertLoop (diagnostics report) ([], initialRun toolVersion)))
          (SarifBuilder_new SARIF_SCHEMA))"

section \<open>What the claims speak about\<close>

definition logResults :: "'n Log \<Rightarrow> 'n Result list" where
  \<comment> \<open>the results of the log, run by run\<close>
  "logResults log = concat (map results (runs log))"

definition logRules :: "'n Log \<Rightarrow> ReportingDescriptor list" where
  \<comment> \<open>\<^verbatim>\<open>tool.driver.rules\<close>, run by run\<close>
  "logRules log = concat (map (\<lambda>run. rules (driver run)) (runs log))"

definition ruleIdOf :: "'n OxlintDiagnostic \<Rightarrow> string" where
  \<comment> \<open>the rule identifier: the code, or UnknownRule when the code is empty\<close>
  "ruleIdOf d = (if code d = [] then ''UnknownRule'' else code d)"

definition descriptorOf :: "'n OxlintDiagnostic \<Rightarrow> ReportingDescriptor" where
  \<comment> \<open>the descriptor registered for a diagnostic whose rule is new\<close>
  "descriptorOf d =
     \<lparr> id' = ruleIdOf d, shortDescription = ruleIdOf d,
       helpUri = (if truthy (url d) then url d else None),
       ruleHelp = (if truthy (help d) then help d else None) \<rparr>"

definition relatedLocationOf :: "'n::{zero,ord,plus} OxlintDiagnostic \<Rightarrow> nat \<Rightarrow> 'n Location" where
  \<comment> \<open>the related location for the label at index \<open>j\<close>\<close>
  "relatedLocationOf d j =
     \<lparr> locationId = Some j,
       physicalLocation =
         \<lparr> artifactLocation = Some \<lparr> uri = pathToUri (filename d) \<rparr>,
           region = Some (buildRegion (span (labels d ! j))) \<rparr>,
       locationMessage = (if truthy (label (labels d ! j)) then label (labels d ! j) else None) \<rparr>"

definition resultOfDiagnostic :: "'n::{zero,ord,plus} OxlintDiagnostic \<Rightarrow> 'n Result" where
  \<comment> \<open>the result the loop body builds for one diagnostic, before the rule index is filled in\<close>
  "resultOfDiagnostic d =
     \<lparr> level = mapSeverityToLevel (severity d),
       messageText = (if truthy (help d) then message d @ [CHR 0x0A] @ the (help d) else message d),
       ruleId = ruleIdOf d,
       ruleIndex = None,
       locations =
         [\<lparr> locationId = None,
            physicalLocation =
              \<lparr> artifactLocation = Some \<lparr> uri = pathToUri (filename d) \<rparr>,
                region = (case labels d of [] \<Rightarrow> None | l # ls \<Rightarrow> Some (buildRegion (span l))) \<rparr>,
            locationMessage = None \<rparr>],
       relatedLocations =
         (if 2 \<le> length (labels d) then Some (map (relatedLocationOf d) [1..<length (labels d)])
          else None) \<rparr>"

definition eraseCausesRelated :: "'n OxlintReport \<Rightarrow> 'n OxlintReport" where
  \<comment> \<open>the report with the \<open>causes\<close> and \<open>related\<close> of every diagnostic blanked\<close>
  "eraseCausesRelated r =
     r\<lparr> diagnostics := map (\<lambda>d. d\<lparr> causes := [], related := [] \<rparr>) (diagnostics r) \<rparr>"

definition lowerCaseRule :: "string \<Rightarrow> string" where
  \<comment> \<open>the severity rule in the words of the specification: lower-cased, error gives
      error; warning, warn and anything else give warning\<close>
  "lowerCaseRule s = (if toLowerCase s = ''error'' then ''error'' else ''warning'')"

definition missing :: "'n json option \<Rightarrow> bool" where
  \<comment> \<open>undefined or null\<close>
  "missing v = (v = None \<or> v = Some JNull)"

section \<open>Example documents\<close>

text \<open>
  Three documents, each with the value \<^verbatim>\<open>JSON.parse\<close> returns for it, and an instance
  of the runtime parameters over the integers that decodes these three documents. No
  example converts between strings and numbers.
\<close>

definition exampleDocument :: string where
  \<open>exampleDocument =
     ''{"diagnostics":[{"message":"m","code":"r1","severity":"ERROR","filename":"a.ts"},{"code":"r2"}]}''\<close>

definition exampleValue :: "int json" where
  "exampleValue =
     JObj [(''diagnostics'',
            JArr [JObj [(''message'', JStr ''m''), (''code'', JStr ''r1''),
                        (''severity'', JStr ''ERROR''), (''filename'', JStr ''a.ts'')],
                  JObj [(''code'', JStr ''r2'')]])]"

definition failingDocument :: string where
  \<open>failingDocument =
     ''{"diagnostics":[{"message":{"toString":1},"code":"r1","severity":"error","filename":"a.ts"}]}''\<close>

definition failingValue :: "int json" where
  "failingValue =
     JObj [(''diagnostics'',
            JArr [JObj [(''message'', JObj [(''toString'', JNum 1)]), (''code'', JStr ''r1''),
                        (''severity'', JStr ''error''), (''filename'', JStr ''a.ts'')]])]"

definition arraySeverityDocument :: string where
  \<open>arraySeverityDocument =
     ''{"diagnostics":[{"message":"m","code":"r1","severity":["ERROR"],"filename":"a.ts"}]}''\<close>

definition arraySeverityValue :: "int json" where
  "arraySeverityValue =
     JObj [(''diagnostics'',
            JArr [JObj [(''message'', JStr ''m''), (''code'', JStr ''r1''),
                        (''severity'', JArr [JStr ''ERROR'']), (''filename'', JStr ''a.ts'')]])]"

definition exampleRuntime :: "int js_runtime" where
  "exampleRuntime =
     \<lparr> JSON_parse = (\<lambda>s. if s = exampleDocument then Inr exampleValue
                          else if s = failingDocument then Inr failingValue
                          else if s = arraySeverityDocument then Inr arraySeverityValue
                          else Inl ''Unexpected end of JSON input''),
       StringToNumber = (\<lambda>s. 0),
       NumberToString = (\<lambda>n. ''0''),
       NumberOfNat = int \<rparr>"

definition exampleSpan :: "int OxlintSpan" where
  "exampleSpan = \<lparr> offset = 0, length' = 5, line = 1, column = 1 \<rparr>"

definition exampleDiagnostic :: "int OxlintDiagnostic" where
  "exampleDiagnostic =
     \<lparr> message = ''m'', code = ''r1'', severity = ''error'', causes = [],
       url = None, help = None, filename = ''a.ts'',
       labels = [\<lparr> label = None, span = exampleSpan \<rparr>], related = [] \<rparr>"

definition emptyTextDiagnostic :: "int OxlintDiagnostic" where
  \<comment> \<open>no code; url, help and the text of the second label are empty strings\<close>
  "emptyTextDiagnostic =
     \<lparr> message = ''n'', code = [], severity = ''warning'', causes = [],
       url = Some [], help = Some [], filename = ''/b.ts'',
       labels = [\<lparr> label = None, span = exampleSpan \<rparr>,
                 \<lparr> label = Some [], span = exampleSpan \<rparr>,
                 \<lparr> label = Some ''here'', span = \<lparr> offset = 9, length' = 0, line = 2, column = 0 \<rparr> \<rparr>],
       related = [] \<rparr>"

definition exampleReport :: "int OxlintReport" where
  "exampleReport =
     \<lparr> diagnostics = [exampleDiagnostic, emptyTextDiagnostic, exampleDiagnostic\<lparr> labels := [] \<rparr>],
       number_of_files = 1, number_of_rules = Some 1, threads_count = 1, start_time = 0 \<rparr>"

definition emptyTextReport :: "int OxlintReport" where
  "emptyTextReport =
     \<lparr> diagnostics = [emptyTextDiagnostic],
       number_of_files = 1, number_of_rules = None, threads_count = 1, start_time = 0 \<rparr>"

definition exampleParsed :: "int OxlintReport" where
  \<comment> \<open>what the parser makes of \<open>exampleDocument\<close>\<close>
  "exampleParsed =
     \<lparr> diagnostics =
         [\<lparr> message = ''m'', code = ''r1'', severity = ''error'', causes = [],
            url = None, help = None, filename = ''a.ts'', labels = [], related = [] \<rparr>],
       number_of_files = 0, number_of_rules = None, threads_count = 1, start_time = 0 \<rparr>"

definition exampleLabel :: "int json" where
  \<comment> \<open>\<^verbatim>\<open>{"label":"here","span":{"offset":7,"length":true,"line":null}}\<close>\<close>
  "exampleLabel =
     JObj [(''label'', JStr ''here''),
           (''span'', JObj [(''offset'', JNum 7), (''length'', JBool True), (''line'', JNull)])]"

definition booleanLineLabel :: "int json" where
  \<comment> \<open>\<^verbatim>\<open>{"span":{"line":false}}\<close>\<close>
  "booleanLineLabel = JObj [(''span'', JObj [(''line'', JBool False)])]"

section \<open>Lemmas on the helpers\<close>

lemma bindE_Inr [simp]: "bindE (Inr v) f = f v"
  by (simp add: bindE_def)

lemma bindE_Inl [simp]: "bindE (Inl e) f = Inl e"
  by (simp add: bindE_def)

lemma bindE_eq_Inr: "bindE x f = Inr y \<longleftrightarrow> (\<exists>v. x = Inr v \<and> f v = Inr y)"
  by (cases x) simp_all

lemma update_fresh: "map_of m k = None \<Longrightarrow> AList.update k v m = m @ [(k, v)]"
  by (induction m) (auto split: if_splits)

lemma find_snoc:
  "find P (xs @ [x]) = (case find P xs of Some y \<Rightarrow> Some y | None \<Rightarrow> if P x then Some x else None)"
  by (induction xs) auto

lemma find_None_iff_set: "find P xs = None \<longleftrightarrow> (\<forall>x\<in>set xs. \<not> P x)"
  by (induction xs) auto

lemma convertStep_eq:
  "convertStep d (m, run) =
     (if map_of m (ruleIdOf d) = None
      then (AList.update (ruleIdOf d) (length m) m,
            addResult (resultOfDiagnostic d) (addRule (descriptorOf d) run))
      else (m, addResult (resultOfDiagnostic d) run))"
proof -
  have rel: "map (\<lambda>(idx, lbl). buildRelatedLocation lbl (filename d) (idx + 1))
               (enumerate 0 (drop 1 (labels d)))
             = map (relatedLocationOf d) [1..<length (labels d)]"
    by (auto intro!: nth_equalityI
             simp: nth_enumerate_eq buildRelatedLocation_def relatedLocationOf_def Let_def)
  have res: "(let res = SarifResultBuilder_new;
          res = setLevel (mapSeverityToLevel (severity d)) res;
          res = setMessageText (if truthy (help d) then message d @ [CHR 0x0A] @ the (help d) else message d) res;
          res = setRuleId (ruleIdOf d) res;
          res = setLocationArtifactUri \<lparr> uri = pathToUri (filename d) \<rparr> res;
          res = (case labels d of
                   [] \<Rightarrow> res
                 | l # ls \<Rightarrow> setLocationRegion (buildRegion (span l)) res);
          res = (if length (labels d) > 1
                 then res\<lparr> relatedLocations :=
                        Some (map (\<lambda>(idx, lbl). buildRelatedLocation lbl (filename d) (idx + 1))
                                (enumerate 0 (drop 1 (labels d)))) \<rparr>
                 else res) in res) = resultOfDiagnostic d"
    unfolding rel
    by (cases "labels d")
       (auto simp add: Suc_le_eq Let_def resultOfDiagnostic_def SarifResultBuilder_new_def setLevel_def
          setMessageText_def setRuleId_def setLocationArtifactUri_def setLocationRegion_def
          firstLocation_def)
  have rid: "(if code d \<noteq> [] then code d else ''UnknownRule'') = ruleIdOf d"
    by (simp add: ruleIdOf_def)
  have rule: "(let rule = initSimple (ruleIdOf d) (ruleIdOf d) (if truthy (url d) then url d else None);
                   rule = (if truthy (help d) then rule\<lparr> ruleHelp := help d \<rparr> else rule) in rule)
              = descriptorOf d"
    by (simp add: Let_def initSimple_def descriptorOf_def)
  show ?thesis
    using res rule unfolding convertStep_def rid
    by (simp add: Let_def)
qed


lemma convertLoop_snoc: "convertLoop (ds @ [d]) st = convertStep d (convertLoop ds st)"
  by (simp add: convertLoop_def)

lemma convertLoop_Nil: "convertLoop [] st = st"
  by (simp add: convertLoop_def)

lemma map_of_zip_upt_None:
  "map_of (zip xs [0..<length xs]) k = None \<longleftrightarrow> k \<notin> set xs"
  by (simp add: map_of_zip_is_None)

lemma convertLoop_inv:
  assumes "rules (driver run0) = []" and "results run0 = []"
  shows "fst (convertLoop ds ([], run0))
           = zip (map id' (rules (driver (snd (convertLoop ds ([], run0))))))
               [0..<length (rules (driver (snd (convertLoop ds ([], run0)))))]
       \<and> map id' (rules (driver (snd (convertLoop ds ([], run0)))))
           = rev (remdups (rev (map ruleIdOf ds)))
       \<and> results (snd (convertLoop ds ([], run0))) = map resultOfDiagnostic ds
       \<and> (\<forall>r\<in>set (rules (driver (snd (convertLoop ds ([], run0))))).
             \<exists>d. find (\<lambda>d. ruleIdOf d = id' r) ds = Some d \<and> r = descriptorOf d)
       \<and> name (driver (snd (convertLoop ds ([], run0)))) = name (driver run0)
       \<and> version (driver (snd (convertLoop ds ([], run0)))) = version (driver run0)
       \<and> informationUri (driver (snd (convertLoop ds ([], run0)))) = informationUri (driver run0)
       \<and> columnKind (snd (convertLoop ds ([], run0))) = columnKind run0"
proof (induction ds rule: rev_induct)
  case Nil
  show ?case using assms by (simp add: convertLoop_Nil)
next
  case (snoc d ds)
  obtain m run where st: "convertLoop ds ([], run0) = (m, run)"
    by (cases "convertLoop ds ([], run0)")
  from snoc st have m: "m = zip (map id' (rules (driver run))) [0..<length (rules (driver run))]"
    and ids: "map id' (rules (driver run)) = rev (remdups (rev (map ruleIdOf ds)))"
    and res: "results run = map resultOfDiagnostic ds"
    and first: "\<forall>r\<in>set (rules (driver run)).
                  \<exists>d. find (\<lambda>d. ruleIdOf d = id' r) ds = Some d \<and> r = descriptorOf d"
    and rest: "name (driver run) = name (driver run0)" "version (driver run) = version (driver run0)"
      "informationUri (driver run) = informationUri (driver run0)" "columnKind run = columnKind run0"
    by simp_all
  have seen: "map_of m (ruleIdOf d) = None \<longleftrightarrow> ruleIdOf d \<notin> set (map ruleIdOf ds)"
  proof -
    have "map_of m (ruleIdOf d) = None \<longleftrightarrow> ruleIdOf d \<notin> set (map id' (rules (driver run)))"
      unfolding m using map_of_zip_upt_None [of "map id' (rules (driver run))" "ruleIdOf d"]
      by simp
    then show ?thesis unfolding ids by simp
  qed
  have lenm: "length m = length (rules (driver run))"
    unfolding m by simp
  show ?case
  proof (cases "ruleIdOf d \<in> set (map ruleIdOf ds)")
    case True
    then have "map_of m (ruleIdOf d) \<noteq> None"
      using seen by blast
    then have step: "convertLoop (ds @ [d]) ([], run0) = (m, addResult (resultOfDiagnostic d) run)"
      unfolding convertLoop_snoc st convertStep_eq by auto
    have f: "\<And>r. r \<in> set (rules (driver run)) \<Longrightarrow>
               \<exists>d'. find (\<lambda>d'. ruleIdOf d' = id' r) (ds @ [d]) = Some d' \<and> r = descriptorOf d'"
      using first by (fastforce simp: find_snoc)
    show ?thesis
      unfolding step using True m ids res rest f
      by (simp add: addResult_def)
  next
    case False
    then have fresh: "map_of m (ruleIdOf d) = None"
      using seen by blast
    then have step: "convertLoop (ds @ [d]) ([], run0)
        = (m @ [(ruleIdOf d, length m)],
           addResult (resultOfDiagnostic d) (addRule (descriptorOf d) run))"
      unfolding convertLoop_snoc st convertStep_eq by (simp add: update_fresh)
    have notin: "\<And>r. r \<in> set (rules (driver run)) \<Longrightarrow> id' r \<noteq> ruleIdOf d"
      using False ids by (metis image_eqI set_map set_remdups set_rev)
    have f: "\<And>r. r \<in> set (rules (driver run)) \<Longrightarrow>
               \<exists>d'. find (\<lambda>d'. ruleIdOf d' = id' r) (ds @ [d]) = Some d' \<and> r = descriptorOf d'"
      using first by (fastforce simp: find_snoc)
    have new: "find (\<lambda>d'. ruleIdOf d' = id' (descriptorOf d)) (ds @ [d]) = Some d"
    proof -
      have "find (\<lambda>d'. ruleIdOf d' = ruleIdOf d) ds = None"
        unfolding find_None_iff_set using False by (metis image_eqI set_map)
      then show ?thesis by (simp add: find_snoc descriptorOf_def)
    qed
    have idd: "id' (descriptorOf d) = ruleIdOf d"
      by (simp add: descriptorOf_def)
    have rs: "rules (driver (addResult (resultOfDiagnostic d) (addRule (descriptorOf d) run)))
                = rules (driver run) @ [descriptorOf d]"
      by (simp add: addResult_def addRule_def)
    have c1: "m @ [(ruleIdOf d, length m)]
                = zip (map id' (rules (driver run) @ [descriptorOf d]))
                    [0..<length (rules (driver run) @ [descriptorOf d])]"
      unfolding lenm by (subst m) (simp add: idd)
    have c2: "map id' (rules (driver run) @ [descriptorOf d])
                = rev (remdups (rev (map ruleIdOf (ds @ [d]))))"
      using False ids by (simp add: idd)
    have c3: "results (addResult (resultOfDiagnostic d) (addRule (descriptorOf d) run))
                = map resultOfDiagnostic (ds @ [d])"
      using res by (simp add: addResult_def addRule_def)
    have c4: "\<forall>r\<in>set (rules (driver run) @ [descriptorOf d]).
                \<exists>d'. find (\<lambda>d'. ruleIdOf d' = id' r) (ds @ [d]) = Some d' \<and> r = descriptorOf d'"
      using f new by auto
    have c5: "name (driver (addResult (resultOfDiagnostic d) (addRule (descriptorOf d) run))) = name (driver run0)"
      "version (driver (addResult (resultOfDiagnostic d) (addRule (descriptorOf d) run))) = version (driver run0)"
      "informationUri (driver (addResult (resultOfDiagnostic d) (addRule (descriptorOf d) run))) = informationUri (driver run0)"
      "columnKind (addResult (resultOfDiagnostic d) (addRule (descriptorOf d) run)) = columnKind run0"
      using rest by (simp_all add: addResult_def addRule_def)
    show ?thesis
      unfolding step fst_conv snd_conv rs using c1 c2 c3 c4 c5
      by blast
  qed
qed

lemma initialRun_empty: "rules (driver (initialRun tv)) = [] \<and> results (initialRun tv) = []"
  by (simp add: initialRun_def Let_def setToolDriverName_def setToolDriverVersion_def
      setToolDriverUri_def SarifRunBuilder_new_def)

lemma convert_runs:
  "runs (convertToSarif report tv)
     = [completeRunFields (snd (convertLoop (diagnostics report) ([], initialRun tv)))]"
  by (simp add: convertToSarif_def buildSarifOutput_def addRun_def SarifBuilder_new_def)

lemma logRules_convert:
  "logRules (convertToSarif report tv)
     = rules (driver (snd (convertLoop (diagnostics report) ([], initialRun tv))))"
  by (simp add: logRules_def convert_runs completeRunFields_def)

lemma logResults_convert:
  "logResults (convertToSarif report tv)
     = map (\<lambda>d. (resultOfDiagnostic d)
                \<lparr> ruleIndex := rulesIndexes (logRules (convertToSarif report tv)) (ruleIdOf d) \<rparr>)
         (diagnostics report)"
proof -
  have "results (snd (convertLoop (diagnostics report) ([], initialRun tv)))
          = map resultOfDiagnostic (diagnostics report)"
    using convertLoop_inv [of "initialRun tv" "diagnostics report"] initialRun_empty [of tv]
    by blast
  then show ?thesis
    unfolding logRules_convert
    by (simp add: logResults_def convert_runs completeRunFields_def resultOfDiagnostic_def)
qed

lemma logRules_ids:
  "map id' (logRules (convertToSarif report tv))
     = rev (remdups (rev (map ruleIdOf (diagnostics report))))"
  unfolding logRules_convert
  using convertLoop_inv [of "initialRun tv" "diagnostics report"] initialRun_empty [of tv]
  by blast

lemma registry_is_rulesIndexes:
  "map_of (fst (convertLoop (diagnostics report) ([], initialRun tv)))
     = rulesIndexes (logRules (convertToSarif report tv))"
proof -
  have "fst (convertLoop (diagnostics report) ([], initialRun tv))
          = zip (map id' (logRules (convertToSarif report tv)))
              [0..<length (logRules (convertToSarif report tv))]"
    unfolding logRules_convert
    using convertLoop_inv [of "initialRun tv" "diagnostics report"] initialRun_empty [of tv]
    by blast
  then show ?thesis by (simp add: rulesIndexes_def)
qed

lemma rulesIndexes_Some:
  assumes "distinct (map id' rs)" and "rid \<in> set (map id' rs)"
  shows "\<exists>k. rulesIndexes rs rid = Some k \<and> k < length rs \<and> id' (rs ! k) = rid"
proof -
  from assms(2) obtain k where k: "k < length rs" "map id' rs ! k = rid"
    by (metis in_set_conv_nth length_map)
  have "map_of (zip (map id' rs) [0..<length rs]) (map id' rs ! k) = Some ([0..<length rs] ! k)"
    using assms(1) k(1) by (intro map_of_zip_nth) simp_all
  then show ?thesis using k by (auto simp: rulesIndexes_def)
qed

subsection \<open>Further lemmas\<close>

lemma logResults_nth:
  "i < length (diagnostics report) \<Longrightarrow>
   logResults (convertToSarif report tv) ! i
     = (resultOfDiagnostic (diagnostics report ! i))
         \<lparr> ruleIndex := rulesIndexes (logRules (convertToSarif report tv))
                            (ruleIdOf (diagnostics report ! i)) \<rparr>"
  by (subst logResults_convert) simp

lemma logRules_first:
  "\<forall>r\<in>set (logRules (convertToSarif report tv)).
     \<exists>d. find (\<lambda>d. ruleIdOf d = id' r) (diagnostics report) = Some d \<and> r = descriptorOf d"
  unfolding logRules_convert
  using convertLoop_inv [of "initialRun tv" "diagnostics report"] initialRun_empty [of tv]
  by blast

lemma convertStep_erase:
  "convertStep (d\<lparr> causes := c, related := r \<rparr>) = convertStep d"
proof (rule ext)
  fix st
  have rid: "ruleIdOf (d\<lparr> causes := c, related := r \<rparr>) = ruleIdOf d"
    by (simp add: ruleIdOf_def)
  have rel: "relatedLocationOf (d\<lparr> causes := c, related := r \<rparr>) = relatedLocationOf d"
    by (rule ext) (simp add: relatedLocationOf_def)
  have res: "resultOfDiagnostic (d\<lparr> causes := c, related := r \<rparr>) = resultOfDiagnostic d"
    by (simp add: resultOfDiagnostic_def rid rel)
  have des: "descriptorOf (d\<lparr> causes := c, related := r \<rparr>) = descriptorOf d"
    by (simp add: descriptorOf_def rid)
  show "convertStep (d\<lparr> causes := c, related := r \<rparr>) st = convertStep d st"
    by (cases st) (simp only: convertStep_eq rid res des)
qed

lemma convertToSarif_erase:
  "convertToSarif (eraseCausesRelated r) tv = convertToSarif r tv"
proof -
  have "convertLoop (diagnostics (eraseCausesRelated r)) = convertLoop (diagnostics r)"
    by (rule ext) (simp add: eraseCausesRelated_def convertLoop_def fold_map comp_def
          convertStep_erase)
  then show ?thesis
    by (simp add: convertToSarif_def)
qed

lemma sequenceE_Inr:
  "sequenceE xs = Inr ys \<Longrightarrow> list_all2 (\<lambda>x y. x = Inr y) xs ys"
proof (induction xs arbitrary: ys)
  case Nil
  then show ?case by simp
next
  case (Cons x xs)
  then show ?case
    by (auto simp: bindE_eq_Inr)
qed

lemma mapE_Inr:
  "mapE f xs = Inr ys \<Longrightarrow> list_all2 (\<lambda>x y. f x = Inr y) xs ys"
  unfolding mapE_def
  by (drule sequenceE_Inr) (simp add: list_all2_map1)

lemma normalize_is_rule: "normalizeOxlintSeverity s = lowerCaseRule s"
  by (simp add: normalizeOxlintSeverity_def lowerCaseRule_def Let_def)

lemma parseDiagnostic_severity:
  assumes "parseDiagnostic rt raw = Inr d"
  shows "\<exists>s. js_String rt (nullish (getProp rt raw ''severity'') (JStr ''warning'')) = Inr s
             \<and> severity d = lowerCaseRule s"
  using assms unfolding parseDiagnostic_def
  by (auto simp: bindE_eq_Inr normalize_is_rule)

lemma parseOxlintJson_Inr:
  assumes "parseOxlintJson rt content = Inr report"
  shows "\<exists>parsed raws. JSON_parse rt content = Inr parsed
           \<and> getProp rt parsed ''diagnostics'' = Some (JArr raws)
           \<and> list_all2 (\<lambda>raw d. parseDiagnostic rt raw = Inr d)
                (filter isOxlintDiagnostic raws) (diagnostics report)"
proof -
  from assms obtain parsed where p: "JSON_parse rt content = Inr parsed"
    and rep: "isOxlintReport rt parsed"
    by (auto simp: parseOxlintJson_def split: if_splits sum.splits)
  from rep obtain raws where raws: "getProp rt parsed ''diagnostics'' = Some (JArr raws)"
    by (cases parsed) (auto split: option.splits json.splits if_splits)
  from assms p rep raws
  obtain ds where "mapE (parseDiagnostic rt) (filter isOxlintDiagnostic raws) = Inr ds"
    and "diagnostics report = ds"
    by (auto simp: parseOxlintJson_def bindE_eq_Inr split: if_splits)
  then show ?thesis using p raws mapE_Inr by blast
qed

lemma spanField_missing: "missing (rawSpanField rt l k) \<Longrightarrow> spanField rt l k d = Inr d"
  by (auto simp: spanField_def missing_def)

lemma spanField_number: "rawSpanField rt l k = Some (JNum n) \<Longrightarrow> spanField rt l k d = Inr n"
  by (simp add: spanField_def)

lemma parseLabel_Inr:
  assumes "parseLabel rt l = Inr lab"
  shows "spanField rt l ''offset'' 0 = Inr (offset (span lab))"
    and "spanField rt l ''length'' 0 = Inr (length' (span lab))"
    and "spanField rt l ''line'' 1 = Inr (line (span lab))"
    and "spanField rt l ''column'' 1 = Inr (column (span lab))"
    and "label lab = (case getProp rt l ''label'' of Some (JStr s) \<Rightarrow> Some s | _ \<Rightarrow> None)"
  using assms unfolding parseLabel_def
  by (auto simp: bindE_eq_Inr)

lemma spanField_present:
  "rawSpanField rt l k = Some v \<Longrightarrow> v \<noteq> JNull \<Longrightarrow> spanField rt l k d = js_Number rt v"
  by (cases v) (simp_all add: spanField_def)

lemma parseLabel_Inl:
  "spanField rt l ''offset'' 0 = Inl e \<or> spanField rt l ''length'' 0 = Inl e
   \<or> spanField rt l ''line'' 1 = Inl e \<or> spanField rt l ''column'' 1 = Inl e
   \<Longrightarrow> \<exists>e'. parseLabel rt l = Inl e'"
  unfolding parseLabel_def bindE_def
  by (auto split: sum.splits)

lemma parseOxlintJson_failure_kinds:
  "(trim c = [] \<longrightarrow> parseOxlintJson rt c = Inl EmptyInput)
   \<and> (trim c \<noteq> [] \<and> JSON_parse rt c = Inl m \<longrightarrow> parseOxlintJson rt c = Inl (MalformedJson m))
   \<and> (trim c \<noteq> [] \<and> JSON_parse rt c = Inr v \<and> \<not> isOxlintReport rt v
        \<longrightarrow> parseOxlintJson rt c = Inl InvalidShape)"
  by (simp add: parseOxlintJson_def EmptyInput_def MalformedJson_def InvalidShape_def)

lemma isOxlintReport_iff:
  "isOxlintReport rt v \<longleftrightarrow> (\<exists>kvs ds. v = JObj kvs \<and> map_of kvs ''diagnostics'' = Some (JArr ds))"
  by (cases v) (auto split: option.splits json.splits)

section \<open>The claims\<close>

subsection \<open>Rule identifier and rule index of a result\<close>

text \<open>
  C1. For every report and every diagnostic in it, the result built for the diagnostic has
  as \<open>ruleId\<close> the rule identifier of the diagnostic (its code, or UnknownRule when the
  code is empty), and its \<open>ruleIndex\<close> is the zero-based position of the descriptor of
  that rule in the rules of the driver, which is also the index that \<^verbatim>\<open>ruleIndexMap\<close>
  holds for the identifier since its first registration.
\<close>

theorem convertToSarif_ruleId_ruleIndex:
  "\<forall>i < length (diagnostics report).
     ruleId (logResults (convertToSarif report tv) ! i) = ruleIdOf (diagnostics report ! i)
     \<and> (\<exists>k. ruleIndex (logResults (convertToSarif report tv) ! i) = Some k
            \<and> k < length (logRules (convertToSarif report tv))
            \<and> id' (logRules (convertToSarif report tv) ! k) = ruleIdOf (diagnostics report ! i)
            \<and> map_of (fst (convertLoop (diagnostics report) ([], initialRun tv)))
                 (ruleIdOf (diagnostics report ! i)) = Some k)"
proof (intro allI impI)
  fix i assume i: "i < length (diagnostics report)"
  let ?log = "convertToSarif report tv"
  let ?d = "diagnostics report ! i"
  have dist: "distinct (map id' (logRules ?log))"
    by (simp add: logRules_ids)
  have mem: "ruleIdOf ?d \<in> set (map id' (logRules ?log))"
    using i by (simp add: logRules_ids)
  from rulesIndexes_Some [OF dist mem] obtain k where
    k: "rulesIndexes (logRules ?log) (ruleIdOf ?d) = Some k" "k < length (logRules ?log)"
       "id' (logRules ?log ! k) = ruleIdOf ?d"
    by blast
  show "ruleId (logResults ?log ! i) = ruleIdOf ?d
     \<and> (\<exists>k. ruleIndex (logResults ?log ! i) = Some k
            \<and> k < length (logRules ?log)
            \<and> id' (logRules ?log ! k) = ruleIdOf ?d
            \<and> map_of (fst (convertLoop (diagnostics report) ([], initialRun tv))) (ruleIdOf ?d) = Some k)"
    unfolding logResults_nth [OF i] registry_is_rulesIndexes using k
    by (simp add: resultOfDiagnostic_def)
qed

theorem convertToSarif_ruleId_ruleIndex_witness:
  "2 < length (diagnostics exampleReport)
   \<and> ruleId (logResults (convertToSarif exampleReport None) ! 2) = ''r1''
   \<and> (\<exists>k. ruleIndex (logResults (convertToSarif exampleReport None) ! 2) = Some k
          \<and> k < length (logRules (convertToSarif exampleReport None))
          \<and> id' (logRules (convertToSarif exampleReport None) ! k) = ''r1''
          \<and> map_of (fst (convertLoop (diagnostics exampleReport) ([], initialRun None))) ''r1'' = Some k)"
proof -
  have len: "2 < length (diagnostics exampleReport)"
    by (simp add: exampleReport_def)
  have rid: "ruleIdOf (diagnostics exampleReport ! 2) = ''r1''"
    by (simp add: exampleReport_def ruleIdOf_def exampleDiagnostic_def)
  from convertToSarif_ruleId_ruleIndex [of exampleReport None] len
  show ?thesis unfolding rid [symmetric] by blast
qed

subsection \<open>Severity and level\<close>

text \<open>
  C2, as amended. For every input the parser accepts, the severity of every admitted
  diagnostic is exactly error or warning. It is computed from the raw value by the
  lower-casing rule: a missing or null severity gives warning, a string is lower-cased
  and gives error when the result is error and warning otherwise, and any other value is
  first converted with \<^verbatim>\<open>String\<close> and then treated as that string. Consequently the
  level of every result that the converter builds from the parsed report is exactly
  error or warning.
\<close>

theorem severity_is_error_or_warning:
  assumes "parseOxlintJson rt content = Inr report"
  shows "(\<forall>d \<in> set (diagnostics report). severity d = ''error'' \<or> severity d = ''warning'')
       \<and> (\<forall>r \<in> set (logResults (convertToSarif report tv)).
             level r = Some ''error'' \<or> level r = Some ''warning'')
       \<and> (\<exists>parsed raws. JSON_parse rt content = Inr parsed
             \<and> getProp rt parsed ''diagnostics'' = Some (JArr raws)
             \<and> list_all2
                  (\<lambda>raw d. case getProp rt raw ''severity'' of
                              None \<Rightarrow> severity d = ''warning''
                            | Some JNull \<Rightarrow> severity d = ''warning''
                            | Some (JStr s) \<Rightarrow> severity d = lowerCaseRule s
                            | Some v \<Rightarrow> (\<exists>s. js_String rt v = Inr s \<and> severity d = lowerCaseRule s))
                  (filter isOxlintDiagnostic raws) (diagnostics report))"
proof -
  from parseOxlintJson_Inr [OF assms] obtain parsed raws where
    p: "JSON_parse rt content = Inr parsed"
    and g: "getProp rt parsed ''diagnostics'' = Some (JArr raws)"
    and all: "list_all2 (\<lambda>raw d. parseDiagnostic rt raw = Inr d)
                (filter isOxlintDiagnostic raws) (diagnostics report)"
    by blast
  have one: "\<And>raw d. parseDiagnostic rt raw = Inr d \<Longrightarrow>
      (case getProp rt raw ''severity'' of
         None \<Rightarrow> severity d = ''warning''
       | Some JNull \<Rightarrow> severity d = ''warning''
       | Some (JStr s) \<Rightarrow> severity d = lowerCaseRule s
       | Some v \<Rightarrow> (\<exists>s. js_String rt v = Inr s \<and> severity d = lowerCaseRule s))"
  proof -
    fix raw d assume "parseDiagnostic rt raw = Inr d"
    from parseDiagnostic_severity [OF this] obtain s where
      s: "js_String rt (nullish (getProp rt raw ''severity'') (JStr ''warning'')) = Inr s"
      "severity d = lowerCaseRule s"
      by blast
    have w: "lowerCaseRule ''warning'' = ''warning''"
      by code_simp
    show "case getProp rt raw ''severity'' of
         None \<Rightarrow> severity d = ''warning''
       | Some JNull \<Rightarrow> severity d = ''warning''
       | Some (JStr s) \<Rightarrow> severity d = lowerCaseRule s
       | Some v \<Rightarrow> (\<exists>s. js_String rt v = Inr s \<and> severity d = lowerCaseRule s)"
      using s w js_String.simps(4) [of rt]
      by (auto split: option.splits json.splits simp del: js_String.simps)
  qed
  have third: "list_all2
                  (\<lambda>raw d. case getProp rt raw ''severity'' of
                              None \<Rightarrow> severity d = ''warning''
                            | Some JNull \<Rightarrow> severity d = ''warning''
                            | Some (JStr s) \<Rightarrow> severity d = lowerCaseRule s
                            | Some v \<Rightarrow> (\<exists>s. js_String rt v = Inr s \<and> severity d = lowerCaseRule s))
                  (filter isOxlintDiagnostic raws) (diagnostics report)"
    using all one by (rule list_all2_mono)
  have sev: "\<And>d. d \<in> set (diagnostics report) \<Longrightarrow> severity d = ''error'' \<or> severity d = ''warning''"
  proof -
    fix d assume "d \<in> set (diagnostics report)"
    then obtain raw where "parseDiagnostic rt raw = Inr d"
      using all by (auto simp: list_all2_conv_all_nth in_set_conv_nth)
    from parseDiagnostic_severity [OF this] obtain s where "severity d = lowerCaseRule s"
      by blast
    then show "severity d = ''error'' \<or> severity d = ''warning''"
      by (simp add: lowerCaseRule_def)
  qed
  have lev: "\<And>r. r \<in> set (logResults (convertToSarif report tv)) \<Longrightarrow>
               level r = Some ''error'' \<or> level r = Some ''warning''"
  proof -
    fix r assume "r \<in> set (logResults (convertToSarif report tv))"
    then obtain d where d: "d \<in> set (diagnostics report)"
      and r: "level r = mapSeverityToLevel (severity d)"
      unfolding logResults_convert by (auto simp: resultOfDiagnostic_def)
    from sev [OF d] show "level r = Some ''error'' \<or> level r = Some ''warning''"
      unfolding r by (auto simp: mapSeverityToLevel_def)
  qed
  from sev lev third p g show ?thesis by blast
qed

theorem severity_is_error_or_warning_witness:
  "parseOxlintJson exampleRuntime exampleDocument = Inr exampleParsed
   \<and> (severity (diagnostics exampleParsed ! 0) = ''error''
        \<or> severity (diagnostics exampleParsed ! 0) = ''warning'')
   \<and> (level (logResults (convertToSarif exampleParsed None) ! 0) = Some ''error''
        \<or> level (logResults (convertToSarif exampleParsed None) ! 0) = Some ''warning'')"
proof -
  have h: "parseOxlintJson exampleRuntime exampleDocument = Inr exampleParsed"
    by code_simp
  have d: "diagnostics exampleParsed ! 0 \<in> set (diagnostics exampleParsed)"
    by (simp add: exampleParsed_def)
  have r: "logResults (convertToSarif exampleParsed None) ! 0
             \<in> set (logResults (convertToSarif exampleParsed None))"
    by (subst (1 2) logResults_convert) (simp add: exampleParsed_def)
  from severity_is_error_or_warning [OF h, of None] d r h show ?thesis
    by blast
qed

text \<open>
  The claim as first stated sends every raw value other than the strings that lower-case to
  error to warning. The array \<^verbatim>\<open>["ERROR"]\<close> is such a value, and its severity is error,
  since \<^verbatim>\<open>String\<close> prints it as its one element.
\<close>

theorem severity_of_array_counterexample:
  "JSON_parse exampleRuntime arraySeverityDocument = Inr arraySeverityValue
   \<and> parseOxlintJson exampleRuntime arraySeverityDocument
       = Inr \<lparr> diagnostics =
                 [\<lparr> message = ''m'', code = ''r1'', severity = ''error'', causes = [],
                    url = None, help = None, filename = ''a.ts'', labels = [], related = [] \<rparr>],
               number_of_files = 0, number_of_rules = None, threads_count = 1, start_time = 0 \<rparr>"
  by code_simp

subsection \<open>The rules of the driver\<close>

text \<open>
  C3, as amended. For every report, the rules of the driver hold exactly one descriptor per
  distinct rule identifier among the diagnostics, in the order in which the identifiers
  are first seen. For each descriptor, the first diagnostic with its identifier decides
  the content: \<open>id\<close> and short description are the identifier, \<open>helpUri\<close> is the url of
  that diagnostic when it is present and not empty, and the help text is its help when
  that is present and not empty.
\<close>

theorem rules_one_per_identifier:
  "map id' (logRules (convertToSarif report tv))
     = rev (remdups (rev (map ruleIdOf (diagnostics report))))
   \<and> distinct (map id' (logRules (convertToSarif report tv)))
   \<and> set (map id' (logRules (convertToSarif report tv))) = set (map ruleIdOf (diagnostics report))
   \<and> (\<forall>r \<in> set (logRules (convertToSarif report tv)).
        \<exists>d. find (\<lambda>d. ruleIdOf d = id' r) (diagnostics report) = Some d
           \<and> shortDescription r = id' r
           \<and> helpUri r = (if truthy (url d) then url d else None)
           \<and> ruleHelp r = (if truthy (help d) then help d else None))"
proof -
  have "\<And>r. r \<in> set (logRules (convertToSarif report tv)) \<Longrightarrow>
        \<exists>d. find (\<lambda>d. ruleIdOf d = id' r) (diagnostics report) = Some d
           \<and> shortDescription r = id' r
           \<and> helpUri r = (if truthy (url d) then url d else None)
           \<and> ruleHelp r = (if truthy (help d) then help d else None)"
  proof -
    fix r assume "r \<in> set (logRules (convertToSarif report tv))"
    with logRules_first obtain d where
      d: "find (\<lambda>d. ruleIdOf d = id' r) (diagnostics report) = Some d" "r = descriptorOf d"
      by blast
    have "shortDescription r = id' r \<and> helpUri r = (if truthy (url d) then url d else None)
          \<and> ruleHelp r = (if truthy (help d) then help d else None)"
      unfolding d(2) by (simp add: descriptorOf_def)
    with d(1) show "\<exists>d. find (\<lambda>d. ruleIdOf d = id' r) (diagnostics report) = Some d
           \<and> shortDescription r = id' r
           \<and> helpUri r = (if truthy (url d) then url d else None)
           \<and> ruleHelp r = (if truthy (help d) then help d else None)"
      by blast
  qed
  then show ?thesis
    by (simp add: logRules_ids)
qed

theorem rules_one_per_identifier_witness:
  "map id' (logRules (convertToSarif exampleReport None)) = [''r1'', ''UnknownRule'']
   \<and> logRules (convertToSarif exampleReport None) ! 0 \<in> set (logRules (convertToSarif exampleReport None))
   \<and> (\<exists>d. find (\<lambda>d. ruleIdOf d = ''r1'') (diagnostics exampleReport) = Some d
          \<and> helpUri (logRules (convertToSarif exampleReport None) ! 0)
               = (if truthy (url d) then url d else None))"
proof -
  have ids: "rev (remdups (rev (map ruleIdOf (diagnostics exampleReport)))) = [''r1'', ''UnknownRule'']"
    by code_simp
  have mem: "logRules (convertToSarif exampleReport None) ! 0
               \<in> set (logRules (convertToSarif exampleReport None))"
    by code_simp
  have i0: "id' (logRules (convertToSarif exampleReport None) ! 0) = ''r1''"
    by code_simp
  from rules_one_per_identifier [of exampleReport None]
  have eq: "map id' (logRules (convertToSarif exampleReport None))
              = rev (remdups (rev (map ruleIdOf (diagnostics exampleReport))))"
    and each: "\<forall>r \<in> set (logRules (convertToSarif exampleReport None)).
        \<exists>d. find (\<lambda>d. ruleIdOf d = id' r) (diagnostics exampleReport) = Some d
           \<and> shortDescription r = id' r
           \<and> helpUri r = (if truthy (url d) then url d else None)
           \<and> ruleHelp r = (if truthy (help d) then help d else None)"
    by blast+
  from each mem obtain d where
    "find (\<lambda>d. ruleIdOf d = id' (logRules (convertToSarif exampleReport None) ! 0))
        (diagnostics exampleReport) = Some d"
    "helpUri (logRules (convertToSarif exampleReport None) ! 0)
       = (if truthy (url d) then url d else None)"
    by blast
  then have "\<exists>d. find (\<lambda>d. ruleIdOf d = ''r1'') (diagnostics exampleReport) = Some d
          \<and> helpUri (logRules (convertToSarif exampleReport None) ! 0)
               = (if truthy (url d) then url d else None)"
    unfolding i0 by blast
  with eq ids mem show ?thesis
    by simp
qed

text \<open>
  The claim as first stated takes a present url or help over as it is. A diagnostic whose
  url and help are the empty string gets a descriptor with neither.
\<close>

theorem rules_empty_url_counterexample:
  "url emptyTextDiagnostic = Some []
   \<and> help emptyTextDiagnostic = Some []
   \<and> diagnostics emptyTextReport = [emptyTextDiagnostic]
   \<and> logRules (convertToSarif emptyTextReport None)
       = [\<lparr> id' = ''UnknownRule'', shortDescription = ''UnknownRule'', helpUri = None,
            ruleHelp = None \<rparr>]"
  by code_simp

subsection \<open>Labels and their spans\<close>

text \<open>
  C4, as amended. For every label the parser returns, each span field is defaulted on its
  own when \<^verbatim>\<open>l.span?.field\<close> is undefined or null, that is when the span or the field is
  missing or null (offset 0, length 0, line 1, column 1). A field that is a number is
  kept, and a field that holds any other value is not defaulted: it is what \<^verbatim>\<open>Number\<close>
  makes of that value. The text of the label is kept only when the raw \<open>label\<close> is a
  string. A label is parsed whenever \<^verbatim>\<open>Number\<close> converts each of its present fields, and
  it is rejected as soon as \<^verbatim>\<open>Number\<close> throws on one of them.
\<close>

theorem parseLabel_span_defaults:
  "(parseLabel rt l = Inr lab \<longrightarrow>
      (missing (rawSpanField rt l ''offset'') \<longrightarrow> offset (span lab) = 0)
    \<and> (missing (rawSpanField rt l ''length'') \<longrightarrow> length' (span lab) = 0)
    \<and> (missing (rawSpanField rt l ''line'') \<longrightarrow> line (span lab) = 1)
    \<and> (missing (rawSpanField rt l ''column'') \<longrightarrow> column (span lab) = 1)
    \<and> (\<forall>n. rawSpanField rt l ''offset'' = Some (JNum n) \<longrightarrow> offset (span lab) = n)
    \<and> (\<forall>n. rawSpanField rt l ''length'' = Some (JNum n) \<longrightarrow> length' (span lab) = n)
    \<and> (\<forall>n. rawSpanField rt l ''line'' = Some (JNum n) \<longrightarrow> line (span lab) = n)
    \<and> (\<forall>n. rawSpanField rt l ''column'' = Some (JNum n) \<longrightarrow> column (span lab) = n)
    \<and> (\<forall>v. rawSpanField rt l ''offset'' = Some v \<and> v \<noteq> JNull
            \<longrightarrow> js_Number rt v = Inr (offset (span lab)))
    \<and> (\<forall>v. rawSpanField rt l ''length'' = Some v \<and> v \<noteq> JNull
            \<longrightarrow> js_Number rt v = Inr (length' (span lab)))
    \<and> (\<forall>v. rawSpanField rt l ''line'' = Some v \<and> v \<noteq> JNull
            \<longrightarrow> js_Number rt v = Inr (line (span lab)))
    \<and> (\<forall>v. rawSpanField rt l ''column'' = Some v \<and> v \<noteq> JNull
            \<longrightarrow> js_Number rt v = Inr (column (span lab)))
    \<and> label lab = (case getProp rt l ''label'' of Some (JStr s) \<Rightarrow> Some s | _ \<Rightarrow> None))
   \<and> ((\<forall>k \<in> set [''offset'', ''length'', ''line'', ''column''].
          missing (rawSpanField rt l k)
          \<or> (\<exists>v x. rawSpanField rt l k = Some v \<and> js_Number rt v = Inr x))
        \<longrightarrow> (\<exists>lab'. parseLabel rt l = Inr lab'))
   \<and> ((\<exists>k \<in> set [''offset'', ''length'', ''line'', ''column''].
          \<exists>v e. rawSpanField rt l k = Some v \<and> js_Number rt v = Inl e)
        \<longrightarrow> (\<exists>e'. parseLabel rt l = Inl e'))"
proof (intro conjI impI)
  assume a: "\<forall>k \<in> set [''offset'', ''length'', ''line'', ''column''].
          missing (rawSpanField rt l k)
          \<or> (\<exists>v x. rawSpanField rt l k = Some v \<and> js_Number rt v = Inr x)"
  have "\<And>k d. k \<in> set [''offset'', ''length'', ''line'', ''column''] \<Longrightarrow>
                \<exists>x. spanField rt l k d = Inr x"
  proof -
    fix k and d :: 'a
    assume "k \<in> set [''offset'', ''length'', ''line'', ''column'']"
    with a have "missing (rawSpanField rt l k)
          \<or> (\<exists>v x. rawSpanField rt l k = Some v \<and> js_Number rt v = Inr x)"
      by blast
    then show "\<exists>x. spanField rt l k d = Inr x"
    proof
      assume "missing (rawSpanField rt l k)"
      then show ?thesis using spanField_missing by blast
    next
      assume "\<exists>v x. rawSpanField rt l k = Some v \<and> js_Number rt v = Inr x"
      then obtain v x where v: "rawSpanField rt l k = Some v" "js_Number rt v = Inr x"
        by blast
      show ?thesis
      proof (cases "v = JNull")
        case True
        then have "missing (rawSpanField rt l k)" using v(1) by (simp add: missing_def)
        then show ?thesis using spanField_missing by blast
      next
        case False
        then show ?thesis using spanField_present [OF v(1)] v(2) by simp
      qed
    qed
  qed
  then obtain a b c e where "spanField rt l ''offset'' 0 = Inr a" "spanField rt l ''length'' 0 = Inr b"
    "spanField rt l ''line'' 1 = Inr c" "spanField rt l ''column'' 1 = Inr e"
    by (metis list.set_intros(1) list.set_intros(2))
  then show "\<exists>lab'. parseLabel rt l = Inr lab'"
    by (simp add: parseLabel_def)
next
  assume "\<exists>k \<in> set [''offset'', ''length'', ''line'', ''column''].
          \<exists>v e. rawSpanField rt l k = Some v \<and> js_Number rt v = Inl e"
  then obtain k v e where k: "k \<in> set [''offset'', ''length'', ''line'', ''column'']"
    and v: "rawSpanField rt l k = Some v" "js_Number rt v = Inl e"
    by blast
  from v(2) have "v \<noteq> JNull" by auto
  then have "\<And>d. spanField rt l k d = Inl e"
    using spanField_present [OF v(1)] v(2) by simp
  with k have "spanField rt l ''offset'' 0 = Inl e \<or> spanField rt l ''length'' 0 = Inl e
   \<or> spanField rt l ''line'' 1 = Inl e \<or> spanField rt l ''column'' 1 = Inl e"
    by auto
  then show "\<exists>e'. parseLabel rt l = Inl e'"
    by (rule parseLabel_Inl)
qed (use parseLabel_Inr spanField_missing spanField_number spanField_present in \<open>fastforce+\<close>)

theorem parseLabel_span_defaults_witness:
  "parseLabel exampleRuntime exampleLabel
     = Inr \<lparr> label = Some ''here'', span = \<lparr> offset = 7, length' = 1, line = 1, column = 1 \<rparr> \<rparr>
   \<and> missing (rawSpanField exampleRuntime exampleLabel ''line'')
   \<and> missing (rawSpanField exampleRuntime exampleLabel ''column'')
   \<and> rawSpanField exampleRuntime exampleLabel ''offset'' = Some (JNum 7)
   \<and> rawSpanField exampleRuntime exampleLabel ''length'' = Some (JBool True)
   \<and> js_Number exampleRuntime (JBool True) = Inr 1
   \<and> (\<exists>lab'. parseLabel exampleRuntime exampleLabel = Inr lab')"
proof -
  let ?lab = "\<lparr> label = Some ''here'', span = \<lparr> offset = 7, length' = 1, line = 1, column = 1 \<rparr> \<rparr> :: int OxlintLabel"
  have p: "parseLabel exampleRuntime exampleLabel = Inr ?lab"
    by code_simp
  have m: "missing (rawSpanField exampleRuntime exampleLabel ''line'')"
    "missing (rawSpanField exampleRuntime exampleLabel ''column'')"
    by (simp_all add: missing_def rawSpanField_def exampleLabel_def)
  have n: "rawSpanField exampleRuntime exampleLabel ''offset'' = Some (JNum 7)"
    by (simp add: rawSpanField_def exampleLabel_def)
  have b: "rawSpanField exampleRuntime exampleLabel ''length'' = Some (JBool True)"
    by (simp add: rawSpanField_def exampleLabel_def)
  have nb: "JBool True \<noteq> (JNull :: int json)"
    by simp
  have all: "\<forall>k \<in> set [''offset'', ''length'', ''line'', ''column''].
          missing (rawSpanField exampleRuntime exampleLabel k)
          \<or> (\<exists>v x. rawSpanField exampleRuntime exampleLabel k = Some v
                    \<and> js_Number exampleRuntime v = Inr x)"
    using m n b by simp
  from parseLabel_span_defaults [of exampleRuntime exampleLabel ?lab] p b nb
  have conv: "js_Number exampleRuntime (JBool True) = Inr (length' (span ?lab))"
    by blast
  from parseLabel_span_defaults [of exampleRuntime exampleLabel ?lab] all
  have ex: "\<exists>lab'. parseLabel exampleRuntime exampleLabel = Inr lab'"
    by blast
  from p m n b conv ex show ?thesis
    by simp
qed

text \<open>
  The claim as first stated also defaults a field that is not a number. Such a field is
  converted with \<^verbatim>\<open>Number\<close> instead: the line \<^verbatim>\<open>false\<close> becomes 0, not 1.
\<close>

theorem parseLabel_non_numeric_counterexample:
  "rawSpanField exampleRuntime booleanLineLabel ''line'' = Some (JBool False)
   \<and> parseLabel exampleRuntime booleanLineLabel
       = Inr \<lparr> label = None, span = \<lparr> offset = 0, length' = 0, line = 0, column = 1 \<rparr> \<rparr>"
  by code_simp

subsection \<open>Failures of the parser\<close>

text \<open>
  C5. The claim is that a document whose root is an object with a \<open>diagnostics\<close> array is
  never rejected. The parser converts the fields of an admitted entry with \<^verbatim>\<open>String\<close>,
  which throws on an object that has a property named \<^verbatim>\<open>toString\<close>: the document
  \<open>failingDocument\<close> decodes to \<open>failingValue\<close>, has the required shape, and is
  rejected with a TypeError.
\<close>

theorem parse_throws_on_toString_key:
  "JSON_parse exampleRuntime failingDocument = Inr failingValue
   \<and> isOxlintReport exampleRuntime failingValue
   \<and> parseOxlintJson exampleRuntime failingDocument
       = Inl (TypeError ''Cannot convert object to primitive value'')"
  by code_simp

text \<open>
  C6. The claim is that the parser fails in exactly three cases. The three cases are as
  stated (\<open>parseOxlintJson_failure_kinds\<close>), but there is a fourth: \<open>failingDocument\<close> is
  not blank, decodes, has the required shape, and still makes the parser fail, with an
  error that is none of the three.
\<close>

theorem parse_failure_outside_three_kinds:
  "trim failingDocument \<noteq> []
   \<and> JSON_parse exampleRuntime failingDocument = Inr failingValue
   \<and> isOxlintReport exampleRuntime failingValue
   \<and> parseOxlintJson exampleRuntime failingDocument \<noteq> Inl EmptyInput
   \<and> parseOxlintJson exampleRuntime failingDocument \<noteq> Inl InvalidShape
   \<and> parseOxlintJson exampleRuntime failingDocument = Inl cannotConvert"
  by code_simp

subsection \<open>Regions and the primary location\<close>

text \<open>
  C7. The region built from a span always has the line of the span as \<open>startLine\<close>; it
  has the column as \<open>startColumn\<close> exactly when the column is greater than 0, and column
  plus length as \<open>endColumn\<close> exactly when the length is greater than 0. The one location
  of a result carries the URI of the file of the diagnostic, and the region of the first
  label; with no label it carries no region.
\<close>

theorem region_and_primary_location:
  "startLine (buildRegion sp) = line sp
   \<and> startColumn (buildRegion sp) = (if column sp > 0 then Some (column sp) else None)
   \<and> endColumn (buildRegion sp) = (if length' sp > 0 then Some (column sp + length' sp) else None)
   \<and> (\<forall>i < length (diagnostics report).
        map physicalLocation (locations (logResults (convertToSarif report tv) ! i))
          = [\<lparr> artifactLocation = Some \<lparr> uri = pathToUri (filename (diagnostics report ! i)) \<rparr>,
               region = (case labels (diagnostics report ! i) of
                           [] \<Rightarrow> None
                         | l # ls \<Rightarrow> Some (buildRegion (span l))) \<rparr>])"
proof -
  have reg: "startLine (buildRegion sp) = line sp"
    "startColumn (buildRegion sp) = (if column sp > 0 then Some (column sp) else None)"
    "endColumn (buildRegion sp) = (if length' sp > 0 then Some (column sp + length' sp) else None)"
    by (simp_all add: buildRegion_def Let_def)
  have loc: "\<forall>i < length (diagnostics report).
        map physicalLocation (locations (logResults (convertToSarif report tv) ! i))
          = [\<lparr> artifactLocation = Some \<lparr> uri = pathToUri (filename (diagnostics report ! i)) \<rparr>,
               region = (case labels (diagnostics report ! i) of
                           [] \<Rightarrow> None
                         | l # ls \<Rightarrow> Some (buildRegion (span l))) \<rparr>]"
    by (simp add: logResults_nth resultOfDiagnostic_def)
  from reg loc show ?thesis
    by (intro conjI)
qed

theorem region_and_primary_location_witness:
  "startLine (buildRegion exampleSpan) = 1
   \<and> startColumn (buildRegion exampleSpan) = Some 1
   \<and> endColumn (buildRegion exampleSpan) = Some 6
   \<and> 2 < length (diagnostics exampleReport)
   \<and> labels (diagnostics exampleReport ! 2) = []
   \<and> map physicalLocation (locations (logResults (convertToSarif exampleReport None) ! 2))
       = [\<lparr> artifactLocation = Some \<lparr> uri = ''a.ts'' \<rparr>, region = None \<rparr>]"
  using region_and_primary_location [of exampleSpan exampleReport None]
  by (simp add: exampleSpan_def exampleReport_def exampleDiagnostic_def pathToUri_def
        isAsciiLetter_def)

subsection \<open>Related locations\<close>

text \<open>
  C8, as amended. For a diagnostic with K labels, \<open>relatedLocations\<close> is present exactly
  when K is at least 2. It then has one entry for each of the labels 1 to K-1, in order;
  the entry for label j has the id j, the URI of the file of the diagnostic, which is
  also the URI of the primary location, the region of the span of the label, and as its
  message the text of the label when that is present and not empty.
\<close>

theorem relatedLocations_from_other_labels:
  "\<forall>i < length (diagnostics report).
     (let d = diagnostics report ! i; K = length (labels d);
          r = logResults (convertToSarif report tv) ! i
      in relatedLocations r
           = (if 2 \<le> K
              then Some (map (\<lambda>j.
                     \<lparr> locationId = Some j,
                       physicalLocation =
                         \<lparr> artifactLocation = Some \<lparr> uri = pathToUri (filename d) \<rparr>,
                           region = Some (buildRegion (span (labels d ! j))) \<rparr>,
                       locationMessage =
                         (if truthy (label (labels d ! j)) then label (labels d ! j) else None) \<rparr>)
                     [1..<K])
              else None)
         \<and> map (\<lambda>l. artifactLocation (physicalLocation l)) (locations r)
             = [Some \<lparr> uri = pathToUri (filename d) \<rparr>])"
proof (intro allI impI)
  fix i assume i: "i < length (diagnostics report)"
  let ?d = "diagnostics report ! i"
  have r: "logResults (convertToSarif report tv) ! i
             = (resultOfDiagnostic ?d)
                 \<lparr> ruleIndex := rulesIndexes (logRules (convertToSarif report tv)) (ruleIdOf ?d) \<rparr>"
    by (rule logResults_nth [OF i])
  show "let d = ?d; K = length (labels d); r = logResults (convertToSarif report tv) ! i
      in relatedLocations r
           = (if 2 \<le> K
              then Some (map (\<lambda>j.
                     \<lparr> locationId = Some j,
                       physicalLocation =
                         \<lparr> artifactLocation = Some \<lparr> uri = pathToUri (filename d) \<rparr>,
                           region = Some (buildRegion (span (labels d ! j))) \<rparr>,
                       locationMessage =
                         (if truthy (label (labels d ! j)) then label (labels d ! j) else None) \<rparr>)
                     [1..<K])
              else None)
         \<and> map (\<lambda>l. artifactLocation (physicalLocation l)) (locations r)
             = [Some \<lparr> uri = pathToUri (filename d) \<rparr>]"
    unfolding r Let_def
    by (simp add: resultOfDiagnostic_def relatedLocationOf_def)
qed

theorem relatedLocations_from_other_labels_witness:
  "1 < length (diagnostics exampleReport)
   \<and> length (labels (diagnostics exampleReport ! 1)) = 3
   \<and> relatedLocations (logResults (convertToSarif exampleReport None) ! 1)
       = Some [\<lparr> locationId = Some 1,
                 physicalLocation =
                   \<lparr> artifactLocation = Some \<lparr> uri = ''file:///b.ts'' \<rparr>,
                     region = Some \<lparr> startLine = 1, startColumn = Some 1, endColumn = Some 6 \<rparr> \<rparr>,
                 locationMessage = None \<rparr>,
               \<lparr> locationId = Some 2,
                 physicalLocation =
                   \<lparr> artifactLocation = Some \<lparr> uri = ''file:///b.ts'' \<rparr>,
                     region = Some \<lparr> startLine = 2, startColumn = None, endColumn = None \<rparr> \<rparr>,
                 locationMessage = Some ''here'' \<rparr>]"
proof -
  have len: "1 < length (diagnostics exampleReport)"
    by (simp add: exampleReport_def)
  have d: "diagnostics exampleReport ! 1 = emptyTextDiagnostic"
    by (simp add: exampleReport_def)
  have upt: "[1..<3] = [1, 2::nat]"
    by code_simp
  from relatedLocations_from_other_labels [of exampleReport None] len
  show ?thesis
    unfolding d
    by (simp add: Let_def emptyTextDiagnostic_def exampleSpan_def buildRegion_def pathToUri_def
          isAsciiLetter_def upt exampleReport_def)
qed

text \<open>
  The claim as first stated gives an entry a message whenever the label has a text. A
  label whose text is the empty string gets an entry without a message.
\<close>

theorem related_empty_label_counterexample:
  "label (labels emptyTextDiagnostic ! 1) = Some []
   \<and> diagnostics emptyTextReport = [emptyTextDiagnostic]
   \<and> map_option (map locationMessage)
         (relatedLocations (logResults (convertToSarif emptyTextReport None) ! 0))
       = Some [None, Some ''here'']"
  by code_simp

subsection \<open>One result per diagnostic\<close>

text \<open>
  C9. For every report with N diagnostics the log has exactly one run, and the results of
  that run are, in order, the results built for the N diagnostics of the report, each
  from its own diagnostic.
\<close>

theorem results_one_per_diagnostic:
  "\<exists>run. runs (convertToSarif report tv) = [run]
     \<and> length (results run) = length (diagnostics report)
     \<and> results run
         = map (\<lambda>d. (resultOfDiagnostic d)\<lparr> ruleIndex := rulesIndexes (rules (driver run)) (ruleIdOf d) \<rparr>)
             (diagnostics report)"
proof -
  let ?run = "completeRunFields (snd (convertLoop (diagnostics report) ([], initialRun tv)))"
  have r: "runs (convertToSarif report tv) = [?run]"
    by (rule convert_runs)
  have res: "results ?run
      = map (\<lambda>d. (resultOfDiagnostic d)\<lparr> ruleIndex := rulesIndexes (rules (driver ?run)) (ruleIdOf d) \<rparr>)
          (diagnostics report)"
    using logResults_convert [of report tv]
    by (simp add: logResults_def logRules_def r)
  have "length (results ?run) = length (diagnostics report)"
    by (subst res) simp
  with r res show ?thesis by blast
qed

theorem results_one_per_diagnostic_witness:
  "\<exists>run. runs (convertToSarif exampleReport None) = [run]
     \<and> length (results run) = 3
     \<and> map ruleIndex (results run) = [Some 0, Some 1, Some 0]"
proof -
  from results_one_per_diagnostic [of exampleReport None] obtain run where
    r: "runs (convertToSarif exampleReport None) = [run]"
    and l: "length (results run) = length (diagnostics exampleReport)"
    by blast
  have "map ruleIndex (logResults (convertToSarif exampleReport None)) = [Some 0, Some 1, Some 0]"
    by code_simp
  then have "map ruleIndex (results run) = [Some 0, Some 1, Some 0]"
    by (simp add: logResults_def r)
  with r l show ?thesis
    by (simp add: exampleReport_def)
qed

subsection \<open>Causes and related information\<close>

text \<open>
  C10. The log does not depend on the \<open>causes\<close> and \<open>related\<close> of the diagnostics: two
  reports that agree once these fields are blanked are converted to the same log.
\<close>

theorem convertToSarif_ignores_causes_related:
  assumes "eraseCausesRelated r1 = eraseCausesRelated r2"
  shows "convertToSarif r1 tv = convertToSarif r2 tv"
  using assms convertToSarif_erase [of r1 tv] convertToSarif_erase [of r2 tv]
  by simp

theorem convertToSarif_ignores_causes_related_witness:
  "eraseCausesRelated exampleReport
     = eraseCausesRelated
         (exampleReport\<lparr> diagnostics :=
            map (\<lambda>d. d\<lparr> causes := [''because''],
                          related := [\<lparr> message' = Some ''see also'', labels' = None \<rparr>] \<rparr>)
              (diagnostics exampleReport) \<rparr>)
   \<and> convertToSarif exampleReport None
       = convertToSarif
           (exampleReport\<lparr> diagnostics :=
              map (\<lambda>d. d\<lparr> causes := [''because''],
                            related := [\<lparr> message' = Some ''see also'', labels' = None \<rparr>] \<rparr>)
                (diagnostics exampleReport) \<rparr>)
           None"
proof -
  have h: "eraseCausesRelated exampleReport
     = eraseCausesRelated
         (exampleReport\<lparr> diagnostics :=
            map (\<lambda>d. d\<lparr> causes := [''because''],
                          related := [\<lparr> message' = Some ''see also'', labels' = None \<rparr>] \<rparr>)
              (diagnostics exampleReport) \<rparr>)"
    by (simp add: eraseCausesRelated_def comp_def)
  from h convertToSarif_ignores_causes_related [OF h, of None] show ?thesis
    by blast
qed

end
